theory Spec2Isabelle
  imports Main
begin

section \<open>Formula trees and root classifiers\<close>

text \<open>
  The module \<^verbatim>\<open>propositions/operators.py\<close> works on objects of the class
  \<^verbatim>\<open>Formula\<close>, which it imports from \<^verbatim>\<open>propositions/syntax.py\<close>. A formula
  object has a string \<^verbatim>\<open>root\<close> and, depending on how it was constructed, no child,
  one child (\<^verbatim>\<open>first\<close>) or two children (\<^verbatim>\<open>first\<close>, \<^verbatim>\<open>second\<close>). The three
  constructors below are the three ways of calling \<^verbatim>\<open>Formula(root)\<close>,
  \<^verbatim>\<open>Formula(root, first)\<close> and \<^verbatim>\<open>Formula(root, first, second)\<close>. The root is kept
  as a string, since every function of the module dispatches on it.
\<close>

datatype formula =
    Leaf string
  | Unary string formula
  | Binary string formula formula

fun root :: "formula \<Rightarrow> string" where
  "root (Leaf r) = r"
| "root (Unary r a) = r"
| "root (Binary r a b) = r"

text \<open>
  Modelled from the spec: the root classifiers \<^verbatim>\<open>is_variable\<close>, \<^verbatim>\<open>is_constant\<close>,
  \<^verbatim>\<open>is_unary\<close> and \<^verbatim>\<open>is_binary\<close> of \<^verbatim>\<open>propositions/syntax.py\<close>, which is not part
  of the sources at hand. The constants are \<^verbatim>\<open>T\<close> and \<^verbatim>\<open>F\<close>, the only unary
  operator is \<^verbatim>\<open>~\<close>, and the binary operators are \<^verbatim>\<open>&\<close>, \<^verbatim>\<open>|\<close>, \<^verbatim>\<open>->\<close>,
  \<^verbatim>\<open>+\<close>, \<^verbatim>\<open><->\<close>, \<^verbatim>\<open>-&\<close> and \<^verbatim>\<open>-|\<close>. A variable name is a letter between
  \<^verbatim>\<open>p\<close> and \<^verbatim>\<open>z\<close>, alone or followed by decimal digits; the classifier reads the
  first character of its argument, so the callers below treat the empty root apart
  (Python raises \<^verbatim>\<open>IndexError\<close> there).
\<close>

definition is_variable :: "string \<Rightarrow> bool" where
  "is_variable s =
     (case s of
        [] \<Rightarrow> False
      | c # cs \<Rightarrow> c \<in> set ''pqrstuvwxyz'' \<and> (cs = [] \<or> list_all (\<lambda>d. d \<in> set ''0123456789'') cs))"

definition is_constant :: "string \<Rightarrow> bool" where
  "is_constant s = (s = ''T'' \<or> s = ''F'')"

definition is_unary :: "string \<Rightarrow> bool" where
  "is_unary s = (s = ''~'')"

definition is_binary :: "string \<Rightarrow> bool" where
  "is_binary s = (s \<in> {''&'', ''|'', ''->'', ''+'', ''<->'', ''-&'', ''-|''})"

text \<open>
  The constructor of \<^verbatim>\<open>Formula\<close> asserts that the number of children fits the kind
  of the root, so the formulas that a caller can build are the well-formed ones.
\<close>

fun well_formed :: "formula \<Rightarrow> bool" where
  "well_formed (Leaf r) = (is_variable r \<or> is_constant r)"
| "well_formed (Unary r a) = (is_unary r \<and> well_formed a)"
| "well_formed (Binary r a b) = (is_binary r \<and> well_formed a \<and> well_formed b)"

text \<open>
  Modelled from the spec: the method \<^verbatim>\<open>Formula.variables\<close> of
  \<^verbatim>\<open>propositions/syntax.py\<close>, the set of the variable names that occur in the tree.
  It is computed as a list without repetitions, in the order of a left-to-right
  traversal; a Python set has no specified iteration order, and the one place that
  iterates over it reads its first element only.
\<close>

fun variables :: "formula \<Rightarrow> string list" where
  "variables (Leaf r) = (if is_variable r then [r] else [])"
| "variables (Unary r a) = variables a"
| "variables (Binary r a b) = remdups (variables a @ variables b)"

text \<open>
  The set of the operator and constant symbols of a tree: every root that is not a
  variable name. It is the notion in which the properties below say which symbols a
  converted formula may hold.
\<close>

fun operators :: "formula \<Rightarrow> string set" where
  "operators (Leaf r) = (if is_variable r then {} else {r})"
| "operators (Unary r a) = insert r (operators a)"
| "operators (Binary r a b) = insert r (operators a \<union> operators b)"

section \<open>Evaluation in a model\<close>

text \<open>
  Modelled from the spec: the function \<^verbatim>\<open>evaluate\<close> of
  \<^verbatim>\<open>propositions/semantics.py\<close>, which is not part of the sources at hand. A model is
  a dictionary from variable names to truth values. The result is \<open>None\<close> where the
  Python fails: a variable without a value in the model, or a root that is no symbol of
  the language.
\<close>

type_synonym model = "string \<rightharpoonup> bool"

fun evaluate :: "formula \<Rightarrow> model \<Rightarrow> bool option" where
  "evaluate (Leaf r) m =
     (if is_constant r then Some (r = ''T'')
      else if is_variable r then m r
      else None)"
| "evaluate (Unary r a) m =
     (if is_unary r then map_option Not (evaluate a m) else None)"
| "evaluate (Binary r a b) m =
     (case evaluate a m of
        None \<Rightarrow> None
      | Some x \<Rightarrow>
         (case evaluate b m of
            None \<Rightarrow> None
          | Some y \<Rightarrow>
              if r = ''&'' then Some (x \<and> y)
              else if r = ''|'' then Some (x \<or> y)
              else if r = ''->'' then Some (x \<longrightarrow> y)
              else if r = ''+'' then Some (x \<noteq> y)
              else if r = ''<->'' then Some (x = y)
              else if r = ''-&'' then Some (\<not> (x \<and> y))
              else if r = ''-|'' then Some (\<not> (x \<or> y))
              else None))"

section \<open>Errors\<close>

text \<open>
  The exceptions that the functions of the module can raise: the \<^verbatim>\<open>ValueError\<close>
  of their last line, with its message; the failure of the \<^verbatim>\<open>assert\<close> in
  \<^verbatim>\<open>to_not_and_or\<close>; the access to a child that the object does not have; and the
  index error of \<^verbatim>\<open>is_variable\<close> on the empty string.
\<close>

datatype error =
    ValueError string
  | AssertionError
  | AttributeError
  | IndexError

section \<open>Conversion to not, and, or\<close>

text \<open>
  \<^verbatim>\<open>next(iter(formula.variables()), 'p')\<close>: the first element that the iteration
  yields, or the default when there is none.
\<close>

fun next_iter :: "string list \<Rightarrow> string \<Rightarrow> string" where
  "next_iter [] d = d"
| "next_iter (v # vs) d = v"

text \<open>The branch of \<^verbatim>\<open>to_not_and_or\<close> for a node whose root is a constant.\<close>

definition eliminate_constant :: "formula \<Rightarrow> formula" where
  "eliminate_constant formula =
     (let var = next_iter (variables formula) ''p'' in
      if root formula = ''T''
      then Binary ''|'' (Leaf var) (Unary ''~'' (Leaf var))
      else Binary ''&'' (Leaf var) (Unary ''~'' (Leaf var)))"

text \<open>
  The chain of tests on the root of a binary node, once both children are converted.
\<close>

definition combine_not_and_or :: "string \<Rightarrow> formula \<Rightarrow> formula \<Rightarrow> error + formula" where
  "combine_not_and_or r left right =
     (if r = ''&'' then Inr (Binary ''&'' left right)
      else if r = ''|'' then Inr (Binary ''|'' left right)
      else if r = ''->'' then Inr (Binary ''|'' (Unary ''~'' left) right)
      else if r = ''+'' then
        Inr (Binary ''|'' (Binary ''&'' left (Unary ''~'' right))
                          (Binary ''&'' (Unary ''~'' left) right))
      else if r = ''<->'' then
        Inr (Binary ''|'' (Binary ''&'' left right)
                          (Binary ''&'' (Unary ''~'' left) (Unary ''~'' right)))
      else if r = ''-&'' then Inr (Unary ''~'' (Binary ''&'' left right))
      else if r = ''-|'' then Inr (Unary ''~'' (Binary ''|'' left right))
      else Inl (ValueError (''Unknown operator: '' @ r)))"

text \<open>
  \<^verbatim>\<open>to_not_and_or\<close>, one equation for each shape of the object. The tests on the
  root come in the order of the source; where the source reads \<^verbatim>\<open>formula.first\<close> or
  \<^verbatim>\<open>formula.second\<close> of an object without that child, the result is
  \<open>AttributeError\<close>.
\<close>

fun to_not_and_or :: "formula \<Rightarrow> error + formula" where
  "to_not_and_or (Leaf r) =
     (if r = [] then Inl IndexError
      else if is_variable r then Inr (Leaf r)
      else if is_constant r then Inr (eliminate_constant (Leaf r))
      else if is_unary r then Inl AttributeError
      else if \<not> is_binary r then Inl AssertionError
      else Inl AttributeError)"
| "to_not_and_or (Unary r a) =
     (if r = [] then Inl IndexError
      else if is_variable r then Inr (Unary r a)
      else if is_constant r then Inr (eliminate_constant (Unary r a))
      else if is_unary r then
        (case to_not_and_or a of
           Inl e \<Rightarrow> Inl e
         | Inr x \<Rightarrow> Inr (Unary ''~'' x))
      else if \<not> is_binary r then Inl AssertionError
      else
        (case to_not_and_or a of
           Inl e \<Rightarrow> Inl e
         | Inr left \<Rightarrow> Inl AttributeError))"
| "to_not_and_or (Binary r a b) =
     (if r = [] then Inl IndexError
      else if is_variable r then Inr (Binary r a b)
      else if is_constant r then Inr (eliminate_constant (Binary r a b))
      else if is_unary r then
        (case to_not_and_or a of
           Inl e \<Rightarrow> Inl e
         | Inr x \<Rightarrow> Inr (Unary ''~'' x))
      else if \<not> is_binary r then Inl AssertionError
      else
        (case to_not_and_or a of
           Inl e \<Rightarrow> Inl e
         | Inr left \<Rightarrow>
            (case to_not_and_or b of
               Inl e \<Rightarrow> Inl e
             | Inr right \<Rightarrow> combine_not_and_or r left right)))"

section \<open>Conversion to not, and\<close>

text \<open>
  The local function \<^verbatim>\<open>convert\<close> of \<^verbatim>\<open>to_not_and\<close>. The arguments of a
  constructor call are evaluated from left to right, so an error of the first child comes
  before the access to a missing second child.
\<close>

fun convert_not_and :: "formula \<Rightarrow> error + formula" where
  "convert_not_and (Leaf r) =
     (if r = [] then Inl IndexError
      else if is_variable r then Inr (Leaf r)
      else if is_unary r then Inl AttributeError
      else if r = ''&'' then Inl AttributeError
      else if r = ''|'' then Inl AttributeError
      else Inl (ValueError (''Unexpected operator: '' @ r)))"
| "convert_not_and (Unary r a) =
     (if r = [] then Inl IndexError
      else if is_variable r then Inr (Unary r a)
      else if is_unary r then
        (case convert_not_and a of
           Inl e \<Rightarrow> Inl e
         | Inr x \<Rightarrow> Inr (Unary ''~'' x))
      else if r = ''&'' \<or> r = ''|'' then
        (case convert_not_and a of
           Inl e \<Rightarrow> Inl e
         | Inr x \<Rightarrow> Inl AttributeError)
      else Inl (ValueError (''Unexpected operator: '' @ r)))"
| "convert_not_and (Binary r a b) =
     (if r = [] then Inl IndexError
      else if is_variable r then Inr (Binary r a b)
      else if is_unary r then
        (case convert_not_and a of
           Inl e \<Rightarrow> Inl e
         | Inr x \<Rightarrow> Inr (Unary ''~'' x))
      else if r = ''&'' then
        (case convert_not_and a of
           Inl e \<Rightarrow> Inl e
         | Inr x \<Rightarrow>
            (case convert_not_and b of
               Inl e \<Rightarrow> Inl e
             | Inr y \<Rightarrow> Inr (Binary ''&'' x y)))
      else if r = ''|'' then
        (case convert_not_and a of
           Inl e \<Rightarrow> Inl e
         | Inr x \<Rightarrow>
            (case convert_not_and b of
               Inl e \<Rightarrow> Inl e
             | Inr y \<Rightarrow> Inr (Unary ''~'' (Binary ''&'' (Unary ''~'' x) (Unary ''~'' y)))))
      else Inl (ValueError (''Unexpected operator: '' @ r)))"

definition to_not_and :: "formula \<Rightarrow> error + formula" where
  "to_not_and formula =
     (case to_not_and_or formula of
        Inl e \<Rightarrow> Inl e
      | Inr g \<Rightarrow> convert_not_and g)"

section \<open>Conversion to nand\<close>

fun convert_nand :: "formula \<Rightarrow> error + formula" where
  "convert_nand (Leaf r) =
     (if r = [] then Inl IndexError
      else if is_variable r then Inr (Leaf r)
      else if is_unary r then Inl AttributeError
      else if r = ''&'' then Inl AttributeError
      else if r = ''|'' then Inl AttributeError
      else Inl (ValueError (''Unexpected operator: '' @ r)))"
| "convert_nand (Unary r a) =
     (if r = [] then Inl IndexError
      else if is_variable r then Inr (Unary r a)
      else if is_unary r then
        (case convert_nand a of
           Inl e \<Rightarrow> Inl e
         | Inr x \<Rightarrow> Inr (Binary ''-&'' x x))
      else if r = ''&'' \<or> r = ''|'' then
        (case convert_nand a of
           Inl e \<Rightarrow> Inl e
         | Inr x \<Rightarrow> Inl AttributeError)
      else Inl (ValueError (''Unexpected operator: '' @ r)))"
| "convert_nand (Binary r a b) =
     (if r = [] then Inl IndexError
      else if is_variable r then Inr (Binary r a b)
      else if is_unary r then
        (case convert_nand a of
           Inl e \<Rightarrow> Inl e
         | Inr x \<Rightarrow> Inr (Binary ''-&'' x x))
      else if r = ''&'' then
        (case convert_nand a of
           Inl e \<Rightarrow> Inl e
         | Inr x \<Rightarrow>
            (case convert_nand b of
               Inl e \<Rightarrow> Inl e
             | Inr y \<Rightarrow>
                (let nand = Binary ''-&'' x y in Inr (Binary ''-&'' nand nand))))
      else if r = ''|'' then
        (case convert_nand a of
           Inl e \<Rightarrow> Inl e
         | Inr x \<Rightarrow>
            (case convert_nand b of
               Inl e \<Rightarrow> Inl e
             | Inr y \<Rightarrow> Inr (Binary ''-&'' (Binary ''-&'' x x) (Binary ''-&'' y y))))
      else Inl (ValueError (''Unexpected operator: '' @ r)))"

definition to_nand :: "formula \<Rightarrow> error + formula" where
  "to_nand formula =
     (case to_not_and_or formula of
        Inl e \<Rightarrow> Inl e
      | Inr g \<Rightarrow> convert_nand g)"

section \<open>Conversion to implies, not\<close>

text \<open>Here the source tests for \<^verbatim>\<open>|\<close> before \<^verbatim>\<open>&\<close>.\<close>

fun convert_implies_not :: "formula \<Rightarrow> error + formula" where
  "convert_implies_not (Leaf r) =
     (if r = [] then Inl IndexError
      else if is_variable r then Inr (Leaf r)
      else if is_unary r then Inl AttributeError
      else if r = ''|'' then Inl AttributeError
      else if r = ''&'' then Inl AttributeError
      else Inl (ValueError (''Unexpected operator: '' @ r)))"
| "convert_implies_not (Unary r a) =
     (if r = [] then Inl IndexError
      else if is_variable r then Inr (Unary r a)
      else if is_unary r then
        (case convert_implies_not a of
           Inl e \<Rightarrow> Inl e
         | Inr x \<Rightarrow> Inr (Unary ''~'' x))
      else if r = ''|'' \<or> r = ''&'' then
        (case convert_implies_not a of
           Inl e \<Rightarrow> Inl e
         | Inr x \<Rightarrow> Inl AttributeError)
      else Inl (ValueError (''Unexpected operator: '' @ r)))"
| "convert_implies_not (Binary r a b) =
     (if r = [] then Inl IndexError
      else if is_variable r then Inr (Binary r a b)
      else if is_unary r then
        (case convert_implies_not a of
           Inl e \<Rightarrow> Inl e
         | Inr x \<Rightarrow> Inr (Unary ''~'' x))
      else if r = ''|'' then
        (case convert_implies_not a of
           Inl e \<Rightarrow> Inl e
         | Inr x \<Rightarrow>
            (case convert_implies_not b of
               Inl e \<Rightarrow> Inl e
             | Inr y \<Rightarrow> Inr (Binary ''->'' (Unary ''~'' x) y)))
      else if r = ''&'' then
        (case convert_implies_not a of
           Inl e \<Rightarrow> Inl e
         | Inr x \<Rightarrow>
            (case convert_implies_not b of
               Inl e \<Rightarrow> Inl e
             | Inr y \<Rightarrow> Inr (Unary ''~'' (Binary ''->'' x (Unary ''~'' y)))))
      else Inl (ValueError (''Unexpected operator: '' @ r)))"

definition to_implies_not :: "formula \<Rightarrow> error + formula" where
  "to_implies_not formula =
     (case to_not_and_or formula of
        Inl e \<Rightarrow> Inl e
      | Inr g \<Rightarrow> convert_implies_not g)"

section \<open>Conversion to implies, false\<close>

text \<open>
  The local function \<^verbatim>\<open>convert\<close> of \<^verbatim>\<open>to_implies_false\<close>. A node with the root
  \<^verbatim>\<open>F\<close> is returned as it is; any other constant becomes \<^verbatim>\<open>(F->F)\<close>.
\<close>

fun convert_implies_false :: "formula \<Rightarrow> error + formula" where
  "convert_implies_false (Leaf r) =
     (if r = [] then Inl IndexError
      else if is_variable r then Inr (Leaf r)
      else if is_constant r then
        (if r = ''F'' then Inr (Leaf r)
         else Inr (Binary ''->'' (Leaf ''F'') (Leaf ''F'')))
      else if is_unary r then Inl AttributeError
      else if r = ''->'' then Inl AttributeError
      else Inl (ValueError (''Unexpected operator: '' @ r)))"
| "convert_implies_false (Unary r a) =
     (if r = [] then Inl IndexError
      else if is_variable r then Inr (Unary r a)
      else if is_constant r then
        (if r = ''F'' then Inr (Unary r a)
         else Inr (Binary ''->'' (Leaf ''F'') (Leaf ''F'')))
      else if is_unary r then
        (case convert_implies_false a of
           Inl e \<Rightarrow> Inl e
         | Inr x \<Rightarrow> Inr (Binary ''->'' x (Leaf ''F'')))
      else if r = ''->'' then
        (case convert_implies_false a of
           Inl e \<Rightarrow> Inl e
         | Inr x \<Rightarrow> Inl AttributeError)
      else Inl (ValueError (''Unexpected operator: '' @ r)))"
| "convert_implies_false (Binary r a b) =
     (if r = [] then Inl IndexError
      else if is_variable r then Inr (Binary r a b)
      else if is_constant r then
        (if r = ''F'' then Inr (Binary r a b)
         else Inr (Binary ''->'' (Leaf ''F'') (Leaf ''F'')))
      else if is_unary r then
        (case convert_implies_false a of
           Inl e \<Rightarrow> Inl e
         | Inr x \<Rightarrow> Inr (Binary ''->'' x (Leaf ''F'')))
      else if r = ''->'' then
        (case convert_implies_false a of
           Inl e \<Rightarrow> Inl e
         | Inr x \<Rightarrow>
            (case convert_implies_false b of
               Inl e \<Rightarrow> Inl e
             | Inr y \<Rightarrow> Inr (Binary ''->'' x y)))
      else Inl (ValueError (''Unexpected operator: '' @ r)))"

definition to_implies_false :: "formula \<Rightarrow> error + formula" where
  "to_implies_false formula =
     (case to_implies_not formula of
        Inl e \<Rightarrow> Inl e
      | Inr g \<Rightarrow> convert_implies_false g)"

section \<open>Notions used to state the properties\<close>

text \<open>The number of the nodes of a tree whose root is a constant.\<close>

fun constant_nodes :: "formula \<Rightarrow> nat" where
  "constant_nodes (Leaf r) = (if is_constant r then 1 else 0)"
| "constant_nodes (Unary r a) = (if is_constant r then 1 else 0) + constant_nodes a"
| "constant_nodes (Binary r a b) = (if is_constant r then 1 else 0) + constant_nodes a + constant_nodes b"

text \<open>
  A tree is shaped when the number of children of each node fits its root wherever the
  root is a symbol of the language; a root that is no symbol of the language may stand
  at any node. These are the trees on which the only possible failure is an unknown
  symbol.
\<close>

fun shaped :: "formula \<Rightarrow> bool" where
  "shaped (Leaf r) = (\<not> is_unary r \<and> \<not> is_binary r)"
| "shaped (Unary r a) = (\<not> is_variable r \<and> \<not> is_constant r \<and> \<not> is_binary r \<and> shaped a)"
| "shaped (Binary r a b) =
     (\<not> is_variable r \<and> \<not> is_constant r \<and> \<not> is_unary r \<and> shaped a \<and> shaped b)"


section \<open>Facts about the classifiers\<close>

lemma is_variable_nonempty: "is_variable r \<Longrightarrow> r \<noteq> []"
  by (auto simp: is_variable_def)

lemma variable_not_symbol:
  "is_variable r \<Longrightarrow> \<not> is_constant r \<and> \<not> is_unary r \<and> \<not> is_binary r"
  by (auto simp: is_variable_def is_constant_def is_unary_def is_binary_def split: list.splits)

lemma constant_not_symbol:
  "is_constant r \<Longrightarrow> r \<noteq> [] \<and> \<not> is_variable r \<and> \<not> is_unary r \<and> \<not> is_binary r"
  by (auto simp: is_variable_def is_constant_def is_unary_def is_binary_def)

lemma unary_not_symbol:
  "is_unary r \<Longrightarrow> r \<noteq> [] \<and> \<not> is_variable r \<and> \<not> is_constant r \<and> \<not> is_binary r"
  by (auto simp: is_variable_def is_constant_def is_unary_def is_binary_def)

lemma binary_not_symbol:
  "is_binary r \<Longrightarrow> r \<noteq> [] \<and> \<not> is_variable r \<and> \<not> is_constant r \<and> \<not> is_unary r"
  by (auto simp: is_variable_def is_constant_def is_unary_def is_binary_def)

lemma is_variable_p: "is_variable ''p''"
  by (simp add: is_variable_def)

section \<open>Facts about the conversion to not, and, or\<close>

lemma eliminate_constant_leaf:
  "is_constant r \<Longrightarrow>
   eliminate_constant (Leaf r) =
     (if r = ''T'' then Binary ''|'' (Leaf ''p'') (Unary ''~'' (Leaf ''p''))
      else Binary ''&'' (Leaf ''p'') (Unary ''~'' (Leaf ''p'')))"
  by (simp add: eliminate_constant_def Let_def constant_not_symbol)

lemma to_not_and_or_leaf:
  "well_formed (Leaf r) \<Longrightarrow>
   to_not_and_or (Leaf r) =
     (if is_variable r then Inr (Leaf r)
      else if r = ''T'' then Inr (Binary ''|'' (Leaf ''p'') (Unary ''~'' (Leaf ''p'')))
      else Inr (Binary ''&'' (Leaf ''p'') (Unary ''~'' (Leaf ''p''))))"
  by (auto simp: eliminate_constant_leaf is_variable_nonempty constant_not_symbol)

lemma to_not_and_or_unary:
  "is_unary r \<Longrightarrow>
   to_not_and_or (Unary r a) =
     (case to_not_and_or a of Inl e \<Rightarrow> Inl e | Inr x \<Rightarrow> Inr (Unary ''~'' x))"
  by (simp add: unary_not_symbol)

lemma to_not_and_or_binary:
  "is_binary r \<Longrightarrow>
   to_not_and_or (Binary r a b) =
     (case to_not_and_or a of
        Inl e \<Rightarrow> Inl e
      | Inr left \<Rightarrow>
         (case to_not_and_or b of
            Inl e \<Rightarrow> Inl e
          | Inr right \<Rightarrow> combine_not_and_or r left right))"
  by (simp add: binary_not_symbol)

lemma combine_succeeds:
  "is_binary r \<Longrightarrow> \<exists>g. combine_not_and_or r left right = Inr g"
  by (auto simp: is_binary_def combine_not_and_or_def)

lemma combine_well_formed:
  "combine_not_and_or r left right = Inr g \<Longrightarrow> well_formed left \<Longrightarrow> well_formed right \<Longrightarrow>
   well_formed g"
  by (auto simp: combine_not_and_or_def is_binary_def is_unary_def split: if_splits)

lemma combine_operators:
  "combine_not_and_or r left right = Inr g \<Longrightarrow>
   operators g \<subseteq> {''~'', ''&'', ''|''} \<union> operators left \<union> operators right"
  by (auto simp: combine_not_and_or_def split: if_splits)

lemma combine_constant_nodes:
  "combine_not_and_or r left right = Inr g \<Longrightarrow>
   constant_nodes g = 0 \<longleftrightarrow> constant_nodes left = 0 \<and> constant_nodes right = 0"
  by (auto simp: combine_not_and_or_def is_constant_def split: if_splits)

lemma combine_variables:
  "combine_not_and_or r left right = Inr g \<Longrightarrow>
   set (variables g) = set (variables left) \<union> set (variables right)"
  by (auto simp: combine_not_and_or_def split: if_splits)

lemma combine_evaluate:
  "combine_not_and_or r left right = Inr g \<Longrightarrow>
   evaluate left m = evaluate a m \<Longrightarrow> evaluate right m = evaluate b m \<Longrightarrow>
   evaluate g m = evaluate (Binary r a b) m"
  by (auto simp: combine_not_and_or_def is_unary_def split: if_splits option.splits)

lemma to_not_and_or_basis:
  "well_formed f \<Longrightarrow>
   \<exists>g. to_not_and_or f = Inr g \<and> well_formed g \<and> operators g \<subseteq> {''~'', ''&'', ''|''}
        \<and> constant_nodes g = 0"
proof (induction f)
  case (Leaf r)
  then show ?case
    by (auto simp: to_not_and_or_leaf is_variable_p is_binary_def is_unary_def is_constant_def
        is_variable_def simp del: to_not_and_or.simps)
next
  case (Unary r a)
  then obtain x where x: "to_not_and_or a = Inr x" "well_formed x"
    "operators x \<subseteq> {''~'', ''&'', ''|''}" "constant_nodes x = 0"
    by auto
  from Unary.prems have "is_unary r" by simp
  with x show ?case
    by (auto simp: to_not_and_or_unary is_unary_def is_constant_def simp del: to_not_and_or.simps)
next
  case (Binary r a b)
  then obtain x y where x: "to_not_and_or a = Inr x" "well_formed x"
    "operators x \<subseteq> {''~'', ''&'', ''|''}" "constant_nodes x = 0"
    and y: "to_not_and_or b = Inr y" "well_formed y"
    "operators y \<subseteq> {''~'', ''&'', ''|''}" "constant_nodes y = 0"
    by auto
  from Binary.prems have r: "is_binary r" by simp
  then obtain g where g: "combine_not_and_or r x y = Inr g"
    using combine_succeeds by blast
  have "to_not_and_or (Binary r a b) = Inr g"
    using r x(1) y(1) g by (simp add: to_not_and_or_binary del: to_not_and_or.simps)
  moreover have "well_formed g"
    using g x(2) y(2) by (rule combine_well_formed)
  moreover have "operators g \<subseteq> {''~'', ''&'', ''|''}"
    using combine_operators [OF g] x(3) y(3) by blast
  moreover have "constant_nodes g = 0"
    using combine_constant_nodes [OF g] x(4) y(4) by simp
  ultimately show ?case by blast
qed


lemma evaluate_defined:
  "well_formed f \<Longrightarrow> set (variables f) \<subseteq> dom m \<Longrightarrow> \<exists>v. evaluate f m = Some v"
proof (induction f)
  case (Leaf r)
  then show ?case by (auto simp: constant_not_symbol)
next
  case (Unary r a)
  then show ?case by auto
next
  case (Binary r a b)
  then obtain x y where "evaluate a m = Some x" "evaluate b m = Some y"
    by auto
  with Binary.prems show ?case
    by (auto simp: is_binary_def)
qed

lemma to_not_and_or_variables:
  "well_formed f \<Longrightarrow> to_not_and_or f = Inr g \<Longrightarrow>
   set (variables g) = set (variables f) \<union> (if constant_nodes f = 0 then {} else {''p''})"
proof (induction f arbitrary: g)
  case (Leaf r)
  then show ?case
    by (auto simp: to_not_and_or_leaf is_variable_p constant_not_symbol variable_not_symbol
        simp del: to_not_and_or.simps split: if_splits)
next
  case (Unary r a)
  then show ?case
    by (auto simp: to_not_and_or_unary unary_not_symbol simp del: to_not_and_or.simps
        split: sum.splits)
next
  case (Binary r a b)
  from Binary.prems have r: "is_binary r" and wa: "well_formed a" and wb: "well_formed b"
    by simp_all
  from Binary.prems(2) r obtain x y where x: "to_not_and_or a = Inr x"
    and y: "to_not_and_or b = Inr y" and g: "combine_not_and_or r x y = Inr g"
    by (auto simp: to_not_and_or_binary simp del: to_not_and_or.simps split: sum.splits)
  have "set (variables g) = set (variables x) \<union> set (variables y)"
    using g by (rule combine_variables)
  also have "set (variables x) =
      set (variables a) \<union> (if constant_nodes a = 0 then {} else {''p''})"
    using wa x by (rule Binary.IH(1))
  also have "set (variables y) =
      set (variables b) \<union> (if constant_nodes b = 0 then {} else {''p''})"
    using wb y by (rule Binary.IH(2))
  finally show ?case
    using r by (auto simp: binary_not_symbol)
qed

lemma to_not_and_or_evaluate:
  "well_formed f \<Longrightarrow> to_not_and_or f = Inr g \<Longrightarrow> set (variables g) \<subseteq> dom m \<Longrightarrow>
   evaluate g m = evaluate f m"
proof (induction f arbitrary: g)
  case (Leaf r)
  then show ?case
    by (auto simp: to_not_and_or_leaf is_variable_p is_constant_def is_unary_def
        simp del: to_not_and_or.simps split: if_splits)
next
  case (Unary r a)
  then show ?case
    by (auto simp: to_not_and_or_unary unary_not_symbol is_unary_def
        simp del: to_not_and_or.simps split: sum.splits)
next
  case (Binary r a b)
  from Binary.prems have r: "is_binary r" and wa: "well_formed a" and wb: "well_formed b"
    by simp_all
  from Binary.prems(2) r obtain x y where x: "to_not_and_or a = Inr x"
    and y: "to_not_and_or b = Inr y" and g: "combine_not_and_or r x y = Inr g"
    by (auto simp: to_not_and_or_binary simp del: to_not_and_or.simps split: sum.splits)
  have vs: "set (variables x) \<subseteq> dom m" "set (variables y) \<subseteq> dom m"
    using combine_variables [OF g] Binary.prems(3) by auto
  have "evaluate x m = evaluate a m"
    using wa x vs(1) by (rule Binary.IH(1))
  moreover have "evaluate y m = evaluate b m"
    using wb y vs(2) by (rule Binary.IH(2))
  ultimately show ?case
    by (rule combine_evaluate [OF g])
qed


section \<open>Facts about the second stages\<close>

lemma basis_leaf:
  "well_formed (Leaf r) \<Longrightarrow> operators (Leaf r) \<subseteq> {''~'', ''&'', ''|''} \<Longrightarrow> is_variable r"
  by (auto simp: is_constant_def split: if_splits)

lemma basis_unary:
  "well_formed (Unary r a) \<Longrightarrow> r = ''~'' \<and> well_formed a"
  by (simp add: is_unary_def)

lemma basis_binary:
  "well_formed (Binary r a b) \<Longrightarrow> operators (Binary r a b) \<subseteq> {''~'', ''&'', ''|''} \<Longrightarrow>
   (r = ''&'' \<or> r = ''|'') \<and> well_formed a \<and> well_formed b
   \<and> operators a \<subseteq> {''~'', ''&'', ''|''} \<and> operators b \<subseteq> {''~'', ''&'', ''|''}"
  by (auto simp: is_binary_def)

lemma convert_not_and_basis:
  "well_formed g \<Longrightarrow> operators g \<subseteq> {''~'', ''&'', ''|''} \<Longrightarrow>
   \<exists>h. convert_not_and g = Inr h \<and> well_formed h \<and> operators h \<subseteq> {''~'', ''&''}
        \<and> set (variables h) = set (variables g)"
proof (induction g)
  case (Leaf r)
  then have "is_variable r" by (rule basis_leaf)
  then show ?case by (simp add: is_variable_nonempty)
next
  case (Unary r a)
  then show ?case
    by (auto simp: is_unary_def is_variable_def)
next
  case (Binary r a b)
  from basis_binary [OF Binary.prems] Binary.IH
  obtain x y where r: "r = ''&'' \<or> r = ''|''"
    and x: "convert_not_and a = Inr x" "well_formed x" "operators x \<subseteq> {''~'', ''&''}"
      "set (variables x) = set (variables a)"
    and y: "convert_not_and b = Inr y" "well_formed y" "operators y \<subseteq> {''~'', ''&''}"
      "set (variables y) = set (variables b)"
    by blast
  from r x y show ?case
    by (auto simp: is_unary_def is_binary_def is_variable_def)
qed

lemma convert_not_and_evaluate:
  "well_formed g \<Longrightarrow> operators g \<subseteq> {''~'', ''&'', ''|''} \<Longrightarrow> convert_not_and g = Inr h \<Longrightarrow>
   evaluate h m = evaluate g m"
proof (induction g arbitrary: h)
  case (Leaf r)
  from Leaf.prems(1,2) have "is_variable r" by (rule basis_leaf)
  with Leaf.prems(3) show ?case by (simp add: is_variable_nonempty)
next
  case (Unary r a)
  then show ?case
    by (auto simp: is_unary_def is_variable_def split: sum.splits)
next
  case (Binary r a b)
  from basis_binary [OF Binary.prems(1,2)]
  have r: "r = ''&'' \<or> r = ''|''" and wa: "well_formed a" and wb: "well_formed b"
    and oa: "operators a \<subseteq> {''~'', ''&'', ''|''}" and ob: "operators b \<subseteq> {''~'', ''&'', ''|''}"
    by simp_all
  from Binary.prems(3) r obtain x y where x: "convert_not_and a = Inr x"
    and y: "convert_not_and b = Inr y"
    and h: "h = (if r = ''&'' then Binary ''&'' x y
                 else Unary ''~'' (Binary ''&'' (Unary ''~'' x) (Unary ''~'' y)))"
    by (auto simp: is_unary_def is_variable_def split: sum.splits)
  have "evaluate x m = evaluate a m" "evaluate y m = evaluate b m"
    using Binary.IH wa wb oa ob x y by simp_all
  with r h show ?case
    by (auto simp: is_unary_def split: option.splits)
qed

lemma convert_nand_basis:
  "well_formed g \<Longrightarrow> operators g \<subseteq> {''~'', ''&'', ''|''} \<Longrightarrow>
   \<exists>h. convert_nand g = Inr h \<and> well_formed h \<and> operators h \<subseteq> {''-&''}
        \<and> set (variables h) = set (variables g)"
proof (induction g)
  case (Leaf r)
  then have "is_variable r" by (rule basis_leaf)
  then show ?case by (simp add: is_variable_nonempty)
next
  case (Unary r a)
  then show ?case
    by (auto simp: is_unary_def is_binary_def is_variable_def)
next
  case (Binary r a b)
  from basis_binary [OF Binary.prems] Binary.IH
  obtain x y where r: "r = ''&'' \<or> r = ''|''"
    and x: "convert_nand a = Inr x" "well_formed x" "operators x \<subseteq> {''-&''}"
      "set (variables x) = set (variables a)"
    and y: "convert_nand b = Inr y" "well_formed y" "operators y \<subseteq> {''-&''}"
      "set (variables y) = set (variables b)"
    by blast
  from r x y show ?case
    by (auto simp: is_unary_def is_binary_def is_variable_def Let_def)
qed

lemma convert_nand_evaluate:
  "well_formed g \<Longrightarrow> operators g \<subseteq> {''~'', ''&'', ''|''} \<Longrightarrow> convert_nand g = Inr h \<Longrightarrow>
   evaluate h m = evaluate g m"
proof (induction g arbitrary: h)
  case (Leaf r)
  from Leaf.prems(1,2) have "is_variable r" by (rule basis_leaf)
  with Leaf.prems(3) show ?case by (simp add: is_variable_nonempty)
next
  case (Unary r a)
  then show ?case
    by (auto simp: is_unary_def is_variable_def split: sum.splits option.splits)
next
  case (Binary r a b)
  from basis_binary [OF Binary.prems(1,2)]
  have r: "r = ''&'' \<or> r = ''|''" and wa: "well_formed a" and wb: "well_formed b"
    and oa: "operators a \<subseteq> {''~'', ''&'', ''|''}" and ob: "operators b \<subseteq> {''~'', ''&'', ''|''}"
    by simp_all
  from Binary.prems(3) r obtain x y where x: "convert_nand a = Inr x"
    and y: "convert_nand b = Inr y"
    and h: "h = (if r = ''&'' then Binary ''-&'' (Binary ''-&'' x y) (Binary ''-&'' x y)
                 else Binary ''-&'' (Binary ''-&'' x x) (Binary ''-&'' y y))"
    by (auto simp: is_unary_def is_variable_def Let_def split: sum.splits)
  have "evaluate x m = evaluate a m" "evaluate y m = evaluate b m"
    using Binary.IH wa wb oa ob x y by simp_all
  with r h show ?case
    by (auto split: option.splits)
qed

lemma convert_implies_not_basis:
  "well_formed g \<Longrightarrow> operators g \<subseteq> {''~'', ''&'', ''|''} \<Longrightarrow>
   \<exists>h. convert_implies_not g = Inr h \<and> well_formed h \<and> operators h \<subseteq> {''->'', ''~''}
        \<and> set (variables h) = set (variables g)"
proof (induction g)
  case (Leaf r)
  then have "is_variable r" by (rule basis_leaf)
  then show ?case by (simp add: is_variable_nonempty)
next
  case (Unary r a)
  then show ?case
    by (auto simp: is_unary_def is_variable_def)
next
  case (Binary r a b)
  from basis_binary [OF Binary.prems] Binary.IH
  obtain x y where r: "r = ''&'' \<or> r = ''|''"
    and x: "convert_implies_not a = Inr x" "well_formed x" "operators x \<subseteq> {''->'', ''~''}"
      "set (variables x) = set (variables a)"
    and y: "convert_implies_not b = Inr y" "well_formed y" "operators y \<subseteq> {''->'', ''~''}"
      "set (variables y) = set (variables b)"
    by blast
  from r x y show ?case
    by (auto simp: is_unary_def is_binary_def is_variable_def)
qed

lemma convert_implies_not_evaluate:
  "well_formed g \<Longrightarrow> operators g \<subseteq> {''~'', ''&'', ''|''} \<Longrightarrow>
   convert_implies_not g = Inr h \<Longrightarrow> evaluate h m = evaluate g m"
proof (induction g arbitrary: h)
  case (Leaf r)
  from Leaf.prems(1,2) have "is_variable r" by (rule basis_leaf)
  with Leaf.prems(3) show ?case by (simp add: is_variable_nonempty)
next
  case (Unary r a)
  then show ?case
    by (auto simp: is_unary_def is_variable_def split: sum.splits)
next
  case (Binary r a b)
  from basis_binary [OF Binary.prems(1,2)]
  have r: "r = ''&'' \<or> r = ''|''" and wa: "well_formed a" and wb: "well_formed b"
    and oa: "operators a \<subseteq> {''~'', ''&'', ''|''}" and ob: "operators b \<subseteq> {''~'', ''&'', ''|''}"
    by simp_all
  from Binary.prems(3) r obtain x y where x: "convert_implies_not a = Inr x"
    and y: "convert_implies_not b = Inr y"
    and h: "h = (if r = ''|'' then Binary ''->'' (Unary ''~'' x) y
                 else Unary ''~'' (Binary ''->'' x (Unary ''~'' y)))"
    by (auto simp: is_unary_def is_variable_def split: sum.splits)
  have "evaluate x m = evaluate a m" "evaluate y m = evaluate b m"
    using Binary.IH wa wb oa ob x y by simp_all
  with r h show ?case
    by (auto simp: is_unary_def split: option.splits)
qed

lemma implies_not_leaf:
  "well_formed (Leaf r) \<Longrightarrow> operators (Leaf r) \<subseteq> {''->'', ''~''} \<Longrightarrow> is_variable r"
  by (auto simp: is_constant_def split: if_splits)

lemma implies_not_binary:
  "well_formed (Binary r a b) \<Longrightarrow> operators (Binary r a b) \<subseteq> {''->'', ''~''} \<Longrightarrow>
   r = ''->'' \<and> well_formed a \<and> well_formed b
   \<and> operators a \<subseteq> {''->'', ''~''} \<and> operators b \<subseteq> {''->'', ''~''}"
  by (auto simp: is_binary_def)

lemma implies_not_constant_free:
  "well_formed g \<Longrightarrow> operators g \<subseteq> {''->'', ''~''} \<Longrightarrow> constant_nodes g = 0"
  by (induction g) (auto simp: is_constant_def is_unary_def is_binary_def is_variable_def split: if_splits)

lemma convert_implies_false_basis:
  "well_formed g \<Longrightarrow> operators g \<subseteq> {''->'', ''~''} \<Longrightarrow>
   \<exists>h. convert_implies_false g = Inr h \<and> well_formed h \<and> operators h \<subseteq> {''->'', ''F''}
        \<and> set (variables h) = set (variables g)
        \<and> (''F'' \<in> operators h \<longleftrightarrow> ''~'' \<in> operators g)"
proof (induction g)
  case (Leaf r)
  then have "is_variable r" by (rule implies_not_leaf)
  then show ?case by (simp add: is_variable_nonempty)
next
  case (Unary r a)
  then show ?case
    by (auto simp: is_unary_def is_binary_def is_constant_def is_variable_def)
next
  case (Binary r a b)
  from implies_not_binary [OF Binary.prems] Binary.IH
  obtain x y where r: "r = ''->''"
    and x: "convert_implies_false a = Inr x" "well_formed x" "operators x \<subseteq> {''->'', ''F''}"
      "set (variables x) = set (variables a)" "''F'' \<in> operators x \<longleftrightarrow> ''~'' \<in> operators a"
    and y: "convert_implies_false b = Inr y" "well_formed y" "operators y \<subseteq> {''->'', ''F''}"
      "set (variables y) = set (variables b)" "''F'' \<in> operators y \<longleftrightarrow> ''~'' \<in> operators b"
    by blast
  from r x y show ?case
    by (auto simp: is_unary_def is_binary_def is_constant_def is_variable_def)
qed

lemma convert_implies_false_evaluate:
  "well_formed g \<Longrightarrow> operators g \<subseteq> {''->'', ''~''} \<Longrightarrow>
   convert_implies_false g = Inr h \<Longrightarrow> evaluate h m = evaluate g m"
proof (induction g arbitrary: h)
  case (Leaf r)
  from Leaf.prems(1,2) have "is_variable r" by (rule implies_not_leaf)
  with Leaf.prems(3) show ?case by (simp add: is_variable_nonempty)
next
  case (Unary r a)
  then show ?case
    by (auto simp: is_unary_def is_variable_def is_constant_def split: sum.splits option.splits)
next
  case (Binary r a b)
  from implies_not_binary [OF Binary.prems(1,2)]
  have r: "r = ''->''" and wa: "well_formed a" and wb: "well_formed b"
    and oa: "operators a \<subseteq> {''->'', ''~''}" and ob: "operators b \<subseteq> {''->'', ''~''}"
    by simp_all
  from Binary.prems(3) r obtain x y where x: "convert_implies_false a = Inr x"
    and y: "convert_implies_false b = Inr y" and h: "h = Binary ''->'' x y"
    by (auto simp: is_unary_def is_variable_def is_constant_def split: sum.splits)
  have "evaluate x m = evaluate a m" "evaluate y m = evaluate b m"
    using Binary.IH wa wb oa ob x y by simp_all
  with r h show ?case
    by (auto split: option.splits)
qed

lemma to_not_and_or_fixed:
  "well_formed g \<Longrightarrow> operators g \<subseteq> {''~'', ''&'', ''|''} \<Longrightarrow> to_not_and_or g = Inr g"
proof (induction g)
  case (Leaf r)
  then have "is_variable r" by (rule basis_leaf)
  then show ?case by (simp add: is_variable_nonempty)
next
  case (Unary r a)
  then show ?case
    by (simp add: to_not_and_or_unary is_unary_def del: to_not_and_or.simps)
next
  case (Binary r a b)
  from basis_binary [OF Binary.prems] Binary.IH
  have r: "r = ''&'' \<or> r = ''|''" and a: "to_not_and_or a = Inr a" and b: "to_not_and_or b = Inr b"
    by simp_all
  from r have "is_binary r" by (auto simp: is_binary_def)
  with r a b show ?case
    by (auto simp: to_not_and_or_binary combine_not_and_or_def simp del: to_not_and_or.simps)
qed

section \<open>Facts about the replacement of constants\<close>





section \<open>Facts about failure\<close>

lemma known_symbol_iff:
  "r \<in> {''T'', ''F'', ''~'', ''&'', ''|'', ''->'', ''+'', ''<->'', ''-&'', ''-|''}
     \<longleftrightarrow> is_constant r \<or> is_unary r \<or> is_binary r"
  by (auto simp: is_constant_def is_unary_def is_binary_def)

lemma well_formed_shaped: "well_formed f \<Longrightarrow> shaped f"
proof (induction f)
  case (Leaf r)
  then show ?case using variable_not_symbol [of r] constant_not_symbol [of r] by auto
next
  case (Unary r a)
  then show ?case using unary_not_symbol [of r] by simp
next
  case (Binary r a b)
  then show ?case using binary_not_symbol [of r] by simp
qed

lemma well_formed_operators:
  "well_formed f \<Longrightarrow>
   operators f \<subseteq> {''T'', ''F'', ''~'', ''&'', ''|'', ''->'', ''+'', ''<->'', ''-&'', ''-|''}"
proof (induction f)
  case (Leaf r)
  then show ?case using known_symbol_iff [of r] by auto
next
  case (Unary r a)
  then show ?case using known_symbol_iff [of r] by auto
next
  case (Binary r a b)
  then show ?case using known_symbol_iff [of r] by auto
qed

lemma shaped_well_formed:
  "shaped f \<Longrightarrow>
   operators f \<subseteq> {''T'', ''F'', ''~'', ''&'', ''|'', ''->'', ''+'', ''<->'', ''-&'', ''-|''} \<Longrightarrow>
   well_formed f"
proof (induction f)
  case (Leaf r)
  show ?case
  proof (cases "is_variable r")
    case True
    then show ?thesis by simp
  next
    case False
    with Leaf.prems(2) have "is_constant r \<or> is_unary r \<or> is_binary r"
      using known_symbol_iff [of r] by simp
    with Leaf.prems(1) show ?thesis by simp
  qed
next
  case (Unary r a)
  from Unary.prems(2) have "is_constant r \<or> is_unary r \<or> is_binary r"
    and "operators a \<subseteq> {''T'', ''F'', ''~'', ''&'', ''|'', ''->'', ''+'', ''<->'', ''-&'', ''-|''}"
    using known_symbol_iff [of r] by simp_all
  with Unary.prems(1) Unary.IH show ?case by simp
next
  case (Binary r a b)
  from Binary.prems(2) have "is_constant r \<or> is_unary r \<or> is_binary r"
    and "operators a \<subseteq> {''T'', ''F'', ''~'', ''&'', ''|'', ''->'', ''+'', ''<->'', ''-&'', ''-|''}"
    and "operators b \<subseteq> {''T'', ''F'', ''~'', ''&'', ''|'', ''->'', ''+'', ''<->'', ''-&'', ''-|''}"
    using known_symbol_iff [of r] by simp_all
  with Binary.prems(1) Binary.IH show ?case by simp
qed

lemma not_well_formed_raises:
  "shaped f \<Longrightarrow> \<not> well_formed f \<Longrightarrow> isl (to_not_and_or f)"
proof (induction f)
  case (Leaf r)
  then show ?case by simp
next
  case (Unary r a)
  show ?case
  proof (cases "is_unary r")
    case True
    with Unary have "isl (to_not_and_or a)" by simp
    then obtain e where "to_not_and_or a = Inl e" by (cases "to_not_and_or a") simp_all
    with True show ?thesis by (simp add: to_not_and_or_unary del: to_not_and_or.simps)
  next
    case False
    with Unary.prems(1) show ?thesis by simp
  qed
next
  case (Binary r a b)
  show ?case
  proof (cases "is_binary r")
    case True
    with Binary have "isl (to_not_and_or a) \<or> isl (to_not_and_or b)" by auto
    then show ?thesis
      using True
      by (cases "to_not_and_or a"; cases "to_not_and_or b")
        (simp_all add: to_not_and_or_binary del: to_not_and_or.simps)
  next
    case False
    with Binary.prems(1) show ?thesis by simp
  qed
qed

lemma convert_not_and_raises:
  "shaped g \<Longrightarrow> \<not> operators g \<subseteq> {''~'', ''&'', ''|''} \<Longrightarrow> isl (convert_not_and g)"
proof (induction g)
  case (Leaf r)
  then show ?case by (simp add: is_unary_def split: if_splits)
next
  case (Unary r a)
  show ?case
  proof (cases "is_unary r")
    case True
    with Unary have "isl (convert_not_and a)" by (simp add: is_unary_def)
    then obtain e where "convert_not_and a = Inl e" by (cases "convert_not_and a") simp_all
    with True Unary.prems(1) show ?thesis by simp
  next
    case False
    with Unary.prems(1) show ?thesis by (simp add: is_binary_def)
  qed
next
  case (Binary r a b)
  show ?case
  proof (cases "r = ''&'' \<or> r = ''|''")
    case True
    with Binary have "isl (convert_not_and a) \<or> isl (convert_not_and b)" by auto
    then show ?thesis
      using True Binary.prems(1)
      by (cases "convert_not_and a"; cases "convert_not_and b") auto
  next
    case False
    with Binary.prems(1) show ?thesis by simp
  qed
qed

lemma convert_nand_raises:
  "shaped g \<Longrightarrow> \<not> operators g \<subseteq> {''~'', ''&'', ''|''} \<Longrightarrow> isl (convert_nand g)"
proof (induction g)
  case (Leaf r)
  then show ?case by (simp add: is_unary_def split: if_splits)
next
  case (Unary r a)
  show ?case
  proof (cases "is_unary r")
    case True
    with Unary have "isl (convert_nand a)" by (simp add: is_unary_def)
    then obtain e where "convert_nand a = Inl e" by (cases "convert_nand a") simp_all
    with True Unary.prems(1) show ?thesis by simp
  next
    case False
    with Unary.prems(1) show ?thesis by (simp add: is_binary_def)
  qed
next
  case (Binary r a b)
  show ?case
  proof (cases "r = ''&'' \<or> r = ''|''")
    case True
    with Binary have "isl (convert_nand a) \<or> isl (convert_nand b)" by auto
    then show ?thesis
      using True Binary.prems(1)
      by (cases "convert_nand a"; cases "convert_nand b") auto
  next
    case False
    with Binary.prems(1) show ?thesis by simp
  qed
qed

lemma convert_implies_not_raises:
  "shaped g \<Longrightarrow> \<not> operators g \<subseteq> {''~'', ''&'', ''|''} \<Longrightarrow> isl (convert_implies_not g)"
proof (induction g)
  case (Leaf r)
  then show ?case by (simp add: is_unary_def split: if_splits)
next
  case (Unary r a)
  show ?case
  proof (cases "is_unary r")
    case True
    with Unary have "isl (convert_implies_not a)" by (simp add: is_unary_def)
    then obtain e where "convert_implies_not a = Inl e" by (cases "convert_implies_not a") simp_all
    with True Unary.prems(1) show ?thesis by simp
  next
    case False
    with Unary.prems(1) show ?thesis by (simp add: is_binary_def)
  qed
next
  case (Binary r a b)
  show ?case
  proof (cases "r = ''&'' \<or> r = ''|''")
    case True
    with Binary have "isl (convert_implies_not a) \<or> isl (convert_implies_not b)" by auto
    then show ?thesis
      using True Binary.prems(1)
      by (cases "convert_implies_not a"; cases "convert_implies_not b") auto
  next
    case False
    with Binary.prems(1) show ?thesis by simp
  qed
qed

lemma convert_implies_false_raises:
  "shaped g \<Longrightarrow> \<not> operators g \<subseteq> {''T'', ''F'', ''~'', ''->''} \<Longrightarrow>
   isl (convert_implies_false g)"
proof (induction g)
  case (Leaf r)
  then show ?case by (simp add: is_unary_def is_constant_def split: if_splits)
next
  case (Unary r a)
  show ?case
  proof (cases "is_unary r")
    case True
    with Unary have "isl (convert_implies_false a)" by (simp add: is_unary_def)
    then obtain e where "convert_implies_false a = Inl e"
      by (cases "convert_implies_false a") simp_all
    with True Unary.prems(1) show ?thesis by simp
  next
    case False
    with Unary.prems(1) show ?thesis by (simp add: is_binary_def)
  qed
next
  case (Binary r a b)
  show ?case
  proof (cases "r = ''->''")
    case True
    with Binary have "isl (convert_implies_false a) \<or> isl (convert_implies_false b)" by auto
    then show ?thesis
      using True Binary.prems(1)
      by (cases "convert_implies_false a"; cases "convert_implies_false b") auto
  next
    case False
    with Binary.prems(1) show ?thesis by simp
  qed
qed

lemma convert_implies_false_returns:
  "well_formed g \<Longrightarrow> operators g \<subseteq> {''T'', ''F'', ''~'', ''->''} \<Longrightarrow>
   \<exists>h. convert_implies_false g = Inr h"
proof (induction g)
  case (Leaf r)
  then show ?case
    using is_variable_nonempty [of r] constant_not_symbol [of r] by auto
next
  case (Unary r a)
  then obtain x where "convert_implies_false a = Inr x" by auto
  with Unary.prems(1) show ?case
    using unary_not_symbol [of r] by simp
next
  case (Binary r a b)
  then obtain x y where "convert_implies_false a = Inr x" "convert_implies_false b = Inr y"
    by auto
  moreover from Binary.prems have "r = ''->''"
    by (auto simp: is_binary_def)
  ultimately show ?case
    by (simp add: is_variable_def is_constant_def is_unary_def)
qed

lemma reductions_return:
  assumes "well_formed f"
  shows "\<not> isl (to_not_and_or f) \<and> \<not> isl (to_not_and f) \<and> \<not> isl (to_nand f)
       \<and> \<not> isl (to_implies_not f) \<and> \<not> isl (to_implies_false f)"
proof -
  from assms obtain g where g: "to_not_and_or f = Inr g" "well_formed g"
    "operators g \<subseteq> {''~'', ''&'', ''|''}"
    using to_not_and_or_basis by blast
  obtain h1 where h1: "convert_not_and g = Inr h1"
    using convert_not_and_basis [OF g(2,3)] by blast
  obtain h2 where h2: "convert_nand g = Inr h2"
    using convert_nand_basis [OF g(2,3)] by blast
  obtain h3 where h3: "convert_implies_not g = Inr h3" "well_formed h3"
    "operators h3 \<subseteq> {''->'', ''~''}"
    using convert_implies_not_basis [OF g(2,3)] by blast
  obtain h4 where h4: "convert_implies_false h3 = Inr h4"
    using convert_implies_false_basis [OF h3(2,3)] by blast
  from g(1) h1 h2 h3(1) h4 show ?thesis
    by (simp add: to_not_and_def to_nand_def to_implies_not_def to_implies_false_def)
qed

lemma reductions_raise:
  assumes "shaped f" and "\<not> well_formed f"
  shows "isl (to_not_and_or f) \<and> isl (to_not_and f) \<and> isl (to_nand f)
       \<and> isl (to_implies_not f) \<and> isl (to_implies_false f)"
proof -
  from assms have "isl (to_not_and_or f)" by (rule not_well_formed_raises)
  then obtain e where "to_not_and_or f = Inl e" by (cases "to_not_and_or f") simp_all
  then show ?thesis
    by (simp add: to_not_and_def to_nand_def to_implies_not_def to_implies_false_def)
qed

lemma shaped_basis:
  assumes "shaped g" and "operators g \<subseteq> {''~'', ''&'', ''|''}"
  shows "well_formed g"
proof -
  have "{''~'', ''&'', ''|''}
      \<subseteq> {''T'', ''F'', ''~'', ''&'', ''|'', ''->'', ''+'', ''<->'', ''-&'', ''-|''}"
    by simp
  with assms(2)
  have "operators g \<subseteq> {''T'', ''F'', ''~'', ''&'', ''|'', ''->'', ''+'', ''<->'', ''-&'', ''-|''}"
    by (rule subset_trans)
  with assms(1) show ?thesis by (rule shaped_well_formed)
qed

lemma shaped_implies_false_basis:
  assumes "shaped g" and "operators g \<subseteq> {''T'', ''F'', ''~'', ''->''}"
  shows "well_formed g"
proof -
  have "{''T'', ''F'', ''~'', ''->''}
      \<subseteq> {''T'', ''F'', ''~'', ''&'', ''|'', ''->'', ''+'', ''<->'', ''-&'', ''-|''}"
    by simp
  with assms(2)
  have "operators g \<subseteq> {''T'', ''F'', ''~'', ''&'', ''|'', ''->'', ''+'', ''<->'', ''-&'', ''-|''}"
    by (rule subset_trans)
  with assms(1) show ?thesis by (rule shaped_well_formed)
qed


lemma convert_not_and_raises_iff:
  assumes s: "shaped g"
  shows "isl (convert_not_and g) \<longleftrightarrow> \<not> operators g \<subseteq> {''~'', ''&'', ''|''}"
proof
  assume i: "isl (convert_not_and g)"
  show "\<not> operators g \<subseteq> {''~'', ''&'', ''|''}"
  proof
    assume o: "operators g \<subseteq> {''~'', ''&'', ''|''}"
    from s o have w: "well_formed g" by (rule shaped_basis)
    from convert_not_and_basis [OF w o] obtain h where "convert_not_and g = Inr h" by blast
    with i show False by simp
  qed
next
  assume "\<not> operators g \<subseteq> {''~'', ''&'', ''|''}"
  with s show "isl (convert_not_and g)" by (rule convert_not_and_raises)
qed

lemma convert_nand_raises_iff:
  assumes s: "shaped g"
  shows "isl (convert_nand g) \<longleftrightarrow> \<not> operators g \<subseteq> {''~'', ''&'', ''|''}"
proof
  assume i: "isl (convert_nand g)"
  show "\<not> operators g \<subseteq> {''~'', ''&'', ''|''}"
  proof
    assume o: "operators g \<subseteq> {''~'', ''&'', ''|''}"
    from s o have w: "well_formed g" by (rule shaped_basis)
    from convert_nand_basis [OF w o] obtain h where "convert_nand g = Inr h" by blast
    with i show False by simp
  qed
next
  assume "\<not> operators g \<subseteq> {''~'', ''&'', ''|''}"
  with s show "isl (convert_nand g)" by (rule convert_nand_raises)
qed

lemma convert_implies_not_raises_iff:
  assumes s: "shaped g"
  shows "isl (convert_implies_not g) \<longleftrightarrow> \<not> operators g \<subseteq> {''~'', ''&'', ''|''}"
proof
  assume i: "isl (convert_implies_not g)"
  show "\<not> operators g \<subseteq> {''~'', ''&'', ''|''}"
  proof
    assume o: "operators g \<subseteq> {''~'', ''&'', ''|''}"
    from s o have w: "well_formed g" by (rule shaped_basis)
    from convert_implies_not_basis [OF w o] obtain h where "convert_implies_not g = Inr h" by blast
    with i show False by simp
  qed
next
  assume "\<not> operators g \<subseteq> {''~'', ''&'', ''|''}"
  with s show "isl (convert_implies_not g)" by (rule convert_implies_not_raises)
qed

lemma convert_implies_false_raises_iff:
  assumes s: "shaped g"
  shows "isl (convert_implies_false g) \<longleftrightarrow> \<not> operators g \<subseteq> {''T'', ''F'', ''~'', ''->''}"
proof
  assume i: "isl (convert_implies_false g)"
  show "\<not> operators g \<subseteq> {''T'', ''F'', ''~'', ''->''}"
  proof
    assume o: "operators g \<subseteq> {''T'', ''F'', ''~'', ''->''}"
    from s o have w: "well_formed g" by (rule shaped_implies_false_basis)
    from convert_implies_false_returns [OF w o] obtain h where "convert_implies_false g = Inr h" by blast
    with i show False by simp
  qed
next
  assume "\<not> operators g \<subseteq> {''T'', ''F'', ''~'', ''->''}"
  with s show "isl (convert_implies_false g)" by (rule convert_implies_false_raises)
qed

lemma reductions_raise_iff:
  assumes s: "shaped f"
  shows "isl (to_not_and_or f) \<longleftrightarrow> \<not> well_formed f"
    and "isl (to_not_and f) \<longleftrightarrow> \<not> well_formed f"
    and "isl (to_nand f) \<longleftrightarrow> \<not> well_formed f"
    and "isl (to_implies_not f) \<longleftrightarrow> \<not> well_formed f"
    and "isl (to_implies_false f) \<longleftrightarrow> \<not> well_formed f"
proof -
  have "(isl (to_not_and_or f) \<longleftrightarrow> \<not> well_formed f)
      \<and> (isl (to_not_and f) \<longleftrightarrow> \<not> well_formed f)
      \<and> (isl (to_nand f) \<longleftrightarrow> \<not> well_formed f)
      \<and> (isl (to_implies_not f) \<longleftrightarrow> \<not> well_formed f)
      \<and> (isl (to_implies_false f) \<longleftrightarrow> \<not> well_formed f)"
  proof (cases "well_formed f")
    case True
    with reductions_return [OF True] show ?thesis by simp
  next
    case False
    with reductions_raise [OF s False] show ?thesis by simp
  qed
  then show "isl (to_not_and_or f) \<longleftrightarrow> \<not> well_formed f"
    and "isl (to_not_and f) \<longleftrightarrow> \<not> well_formed f"
    and "isl (to_nand f) \<longleftrightarrow> \<not> well_formed f"
    and "isl (to_implies_not f) \<longleftrightarrow> \<not> well_formed f"
    and "isl (to_implies_false f) \<longleftrightarrow> \<not> well_formed f"
    by simp_all
qed

lemma shaped_well_formed_iff:
  assumes "shaped f"
  shows "\<not> well_formed f \<longleftrightarrow>
    \<not> operators f \<subseteq> {''T'', ''F'', ''~'', ''&'', ''|'', ''->'', ''+'', ''<->'', ''-&'', ''-|''}"
proof -
  have "well_formed f \<longleftrightarrow>
    operators f \<subseteq> {''T'', ''F'', ''~'', ''&'', ''|'', ''->'', ''+'', ''<->'', ''-&'', ''-|''}"
  proof
    assume "well_formed f"
    then show "operators f \<subseteq> {''T'', ''F'', ''~'', ''&'', ''|'', ''->'', ''+'', ''<->'', ''-&'', ''-|''}"
      by (rule well_formed_operators)
  next
    assume "operators f \<subseteq> {''T'', ''F'', ''~'', ''&'', ''|'', ''->'', ''+'', ''<->'', ''-&'', ''-|''}"
    with assms show "well_formed f" by (rule shaped_well_formed)
  qed
  then show ?thesis by (rule arg_cong [where f = Not])
qed

section \<open>Facts about the values of the converted formulas\<close>

lemma conversions_evaluate:
  assumes w: "well_formed f" and g: "to_not_and_or f = Inr g"
    and v: "set (variables g) \<subseteq> dom m"
  shows "(\<exists>h. to_not_and_or f = Inr h \<and> evaluate h m = evaluate f m \<and> evaluate f m \<noteq> None)
       \<and> (\<exists>h. to_not_and f = Inr h \<and> evaluate h m = evaluate f m \<and> evaluate f m \<noteq> None)
       \<and> (\<exists>h. to_nand f = Inr h \<and> evaluate h m = evaluate f m \<and> evaluate f m \<noteq> None)
       \<and> (\<exists>h. to_implies_not f = Inr h \<and> evaluate h m = evaluate f m \<and> evaluate f m \<noteq> None)
       \<and> (\<exists>h. to_implies_false f = Inr h \<and> evaluate h m = evaluate f m \<and> evaluate f m \<noteq> None)"
proof -
  from w g obtain g' where "to_not_and_or f = Inr g'" "well_formed g'"
    "operators g' \<subseteq> {''~'', ''&'', ''|''}"
    using to_not_and_or_basis by blast
  with g have wg: "well_formed g" and og: "operators g \<subseteq> {''~'', ''&'', ''|''}"
    by simp_all
  have vf: "set (variables f) \<subseteq> dom m"
    using to_not_and_or_variables [OF w g] v by auto
  have eg: "evaluate g m = evaluate f m"
    using w g v by (rule to_not_and_or_evaluate)
  obtain x where x: "evaluate f m = Some x"
    using evaluate_defined [OF w vf] by blast
  obtain h1 where h1: "convert_not_and g = Inr h1"
    using convert_not_and_basis [OF wg og] by blast
  have e1: "evaluate h1 m = evaluate g m"
    using wg og h1 by (rule convert_not_and_evaluate)
  obtain h2 where h2: "convert_nand g = Inr h2"
    using convert_nand_basis [OF wg og] by blast
  have e2: "evaluate h2 m = evaluate g m"
    using wg og h2 by (rule convert_nand_evaluate)
  obtain h3 where h3: "convert_implies_not g = Inr h3" "well_formed h3"
    "operators h3 \<subseteq> {''->'', ''~''}"
    using convert_implies_not_basis [OF wg og] by blast
  have e3: "evaluate h3 m = evaluate g m"
    using wg og h3(1) by (rule convert_implies_not_evaluate)
  obtain h4 where h4: "convert_implies_false h3 = Inr h4"
    using convert_implies_false_basis [OF h3(2,3)] by blast
  have e4: "evaluate h4 m = evaluate h3 m"
    using h3(2,3) h4 by (rule convert_implies_false_evaluate)
  from g h1 h2 h3(1) h4 eg e1 e2 e3 e4 x show ?thesis
    by (simp add: to_not_and_def to_nand_def to_implies_not_def to_implies_false_def)
qed

section \<open>The properties of the conversions\<close>

text \<open>
  Claim C7. \<^verbatim>\<open>to_not_and_or\<close> applied to the formula \<^verbatim>\<open>(p->q)\<close> returns exactly the
  tree \<^verbatim>\<open>(~p|q)\<close>, and this tree has the value of \<^verbatim>\<open>(p->q)\<close> in each of the four
  models of \<^verbatim>\<open>p\<close> and \<^verbatim>\<open>q\<close>.
\<close>

theorem implies_to_not_and_or:
  "to_not_and_or (Binary ''->'' (Leaf ''p'') (Leaf ''q''))
     = Inr (Binary ''|'' (Unary ''~'' (Leaf ''p'')) (Leaf ''q''))
   \<and> (\<forall>x y. evaluate (Binary ''|'' (Unary ''~'' (Leaf ''p'')) (Leaf ''q'')) [''p'' \<mapsto> x, ''q'' \<mapsto> y]
            = evaluate (Binary ''->'' (Leaf ''p'') (Leaf ''q'')) [''p'' \<mapsto> x, ''q'' \<mapsto> y]
          \<and> evaluate (Binary ''->'' (Leaf ''p'') (Leaf ''q'')) [''p'' \<mapsto> x, ''q'' \<mapsto> y] \<noteq> None)"
  by (simp add: is_variable_def is_constant_def is_unary_def is_binary_def combine_not_and_or_def)

theorem implies_to_not_and_or_witness:
  "to_not_and_or (Binary ''->'' (Leaf ''p'') (Leaf ''q''))
     = Inr (Binary ''|'' (Unary ''~'' (Leaf ''p'')) (Leaf ''q''))
   \<and> evaluate (Binary ''|'' (Unary ''~'' (Leaf ''p'')) (Leaf ''q'')) [''p'' \<mapsto> True, ''q'' \<mapsto> False]
       = Some False"
proof -
  have "evaluate (Binary ''->'' (Leaf ''p'') (Leaf ''q'')) [''p'' \<mapsto> True, ''q'' \<mapsto> False]
      = Some False"
    by (simp add: is_variable_def is_constant_def)
  with implies_to_not_and_or show ?thesis
    by metis
qed

text \<open>
  Claim C8. \<^verbatim>\<open>to_not_and_or\<close> applied to the bare constant \<^verbatim>\<open>T\<close>, a formula without
  variables, does not fail: it falls back to the default variable name \<^verbatim>\<open>p\<close> and
  returns \<^verbatim>\<open>(p|~p)\<close>, a formula over that single variable which is true whatever the
  value of \<^verbatim>\<open>p\<close>.
\<close>

theorem bare_true_falls_back:
  "variables (Leaf ''T'') = []
   \<and> to_not_and_or (Leaf ''T'') = Inr (Binary ''|'' (Leaf ''p'') (Unary ''~'' (Leaf ''p'')))
   \<and> variables (Binary ''|'' (Leaf ''p'') (Unary ''~'' (Leaf ''p''))) = [''p'']
   \<and> (\<forall>x. evaluate (Binary ''|'' (Leaf ''p'') (Unary ''~'' (Leaf ''p''))) [''p'' \<mapsto> x] = Some True)"
  by (simp add: is_variable_def is_constant_def is_unary_def is_binary_def
      eliminate_constant_def Let_def)

theorem bare_true_falls_back_witness:
  "to_not_and_or (Leaf ''T'') = Inr (Binary ''|'' (Leaf ''p'') (Unary ''~'' (Leaf ''p'')))
   \<and> evaluate (Binary ''|'' (Leaf ''p'') (Unary ''~'' (Leaf ''p''))) [''p'' \<mapsto> False] = Some True"
  using bare_true_falls_back by blast

text \<open>
  Claim C1, as amended. For every well-formed formula without constants and every model
  that gives a value to each of its variables, each of the five conversions returns a
  formula, and that formula has in the model the value of the given formula. The same
  holds for every well-formed formula without variables and every model that gives a
  value to the default variable \<^verbatim>\<open>p\<close>. For a formula without variables a model of its
  variables alone is not enough, as the counterexample shows on the formula \<^verbatim>\<open>T\<close> and
  the empty model.
\<close>

theorem reductions_preserve_evaluate:
  assumes "well_formed f" and "set (variables f) \<subseteq> dom m"
    and "constant_nodes f = 0 \<or> (variables f = [] \<and> ''p'' \<in> dom m)"
  shows "(\<exists>g. to_not_and_or f = Inr g \<and> evaluate g m = evaluate f m \<and> evaluate f m \<noteq> None)
       \<and> (\<exists>g. to_not_and f = Inr g \<and> evaluate g m = evaluate f m \<and> evaluate f m \<noteq> None)
       \<and> (\<exists>g. to_nand f = Inr g \<and> evaluate g m = evaluate f m \<and> evaluate f m \<noteq> None)
       \<and> (\<exists>g. to_implies_not f = Inr g \<and> evaluate g m = evaluate f m \<and> evaluate f m \<noteq> None)
       \<and> (\<exists>g. to_implies_false f = Inr g \<and> evaluate g m = evaluate f m \<and> evaluate f m \<noteq> None)"
proof -
  from assms(1) obtain g where g: "to_not_and_or f = Inr g"
    using to_not_and_or_basis by blast
  have "set (variables g)
      = set (variables f) \<union> (if constant_nodes f = 0 then {} else {''p''})"
    using assms(1) g by (rule to_not_and_or_variables)
  with assms(2,3) have "set (variables g) \<subseteq> dom m"
    by auto
  with assms(1) g show ?thesis
    by (rule conversions_evaluate)
qed

theorem reductions_preserve_evaluate_witness:
  "well_formed (Binary ''<->'' (Leaf ''q'') (Leaf ''r''))
   \<and> set (variables (Binary ''<->'' (Leaf ''q'') (Leaf ''r''))) \<subseteq> dom [''q'' \<mapsto> True, ''r'' \<mapsto> False]
   \<and> constant_nodes (Binary ''<->'' (Leaf ''q'') (Leaf ''r'')) = 0
   \<and> (\<exists>g. to_nand (Binary ''<->'' (Leaf ''q'') (Leaf ''r'')) = Inr g
          \<and> evaluate g [''q'' \<mapsto> True, ''r'' \<mapsto> False] = Some False)
   \<and> (\<exists>g. to_implies_false (Binary ''<->'' (Leaf ''q'') (Leaf ''r'')) = Inr g
          \<and> evaluate g [''q'' \<mapsto> True, ''r'' \<mapsto> False] = Some False)
   \<and> well_formed (Binary ''->'' (Leaf ''T'') (Leaf ''F''))
   \<and> variables (Binary ''->'' (Leaf ''T'') (Leaf ''F'')) = []
   \<and> ''p'' \<in> dom [''p'' \<mapsto> True]
   \<and> (\<exists>g. to_not_and_or (Binary ''->'' (Leaf ''T'') (Leaf ''F'')) = Inr g
          \<and> evaluate g [''p'' \<mapsto> True] = Some False)"
proof -
  let ?f = "Binary ''<->'' (Leaf ''q'') (Leaf ''r'')"
  let ?m = "[''q'' \<mapsto> True, ''r'' \<mapsto> False]"
  let ?c = "Binary ''->'' (Leaf ''T'') (Leaf ''F'')"
  let ?n = "[''p'' \<mapsto> True]"
  have w: "well_formed ?f"
    by (simp add: is_variable_def is_binary_def)
  have v: "set (variables ?f) \<subseteq> dom ?m"
    by (simp add: is_variable_def)
  have c: "constant_nodes ?f = 0"
    by (simp add: is_constant_def)
  have e: "evaluate ?f ?m = Some False"
    by (simp add: is_variable_def is_constant_def)
  have w': "well_formed ?c"
    by (simp add: is_variable_def is_constant_def is_binary_def)
  have v': "variables ?c = []"
    by (simp add: is_variable_def)
  have p: "''p'' \<in> dom ?n"
    by simp
  have e': "evaluate ?c ?n = Some False"
    by (simp add: is_variable_def is_constant_def)
  from c have d: "constant_nodes ?f = 0 \<or> (variables ?f = [] \<and> ''p'' \<in> dom ?m)"
    by (rule disjI1)
  from v' have sv': "set (variables ?c) \<subseteq> dom ?n"
    by simp
  from v' p have d': "constant_nodes ?c = 0 \<or> (variables ?c = [] \<and> ''p'' \<in> dom ?n)"
    by (intro disjI2 conjI)
  note t = reductions_preserve_evaluate [OF w v d]
  note t' = reductions_preserve_evaluate [OF w' sv' d']
  from t [THEN conjunct2, THEN conjunct2, THEN conjunct1]
  obtain g1 where "to_nand ?f = Inr g1" "evaluate g1 ?m = Some False"
    unfolding e by (elim exE conjE)
  then have r1: "\<exists>g. to_nand ?f = Inr g \<and> evaluate g ?m = Some False"
    by (intro exI conjI)
  from t [THEN conjunct2, THEN conjunct2, THEN conjunct2, THEN conjunct2]
  obtain g2 where "to_implies_false ?f = Inr g2" "evaluate g2 ?m = Some False"
    unfolding e by (elim exE conjE)
  then have r2: "\<exists>g. to_implies_false ?f = Inr g \<and> evaluate g ?m = Some False"
    by (intro exI conjI)
  from t' [THEN conjunct1]
  obtain g3 where "to_not_and_or ?c = Inr g3" "evaluate g3 ?n = Some False"
    unfolding e' by (elim exE conjE)
  then have r3: "\<exists>g. to_not_and_or ?c = Inr g \<and> evaluate g ?n = Some False"
    by (intro exI conjI)
  from w v c r1 r2 w' v' p r3 show ?thesis
    by (intro conjI)
qed

theorem evaluate_not_preserved_counterexample:
  "well_formed (Leaf ''T'')
   \<and> set (variables (Leaf ''T'')) \<subseteq> dom (Map.empty :: model)
   \<and> evaluate (Leaf ''T'') Map.empty = Some True
   \<and> to_not_and_or (Leaf ''T'') = Inr (Binary ''|'' (Leaf ''p'') (Unary ''~'' (Leaf ''p'')))
   \<and> evaluate (Binary ''|'' (Leaf ''p'') (Unary ''~'' (Leaf ''p''))) Map.empty = None"
  by (simp add: is_variable_def is_constant_def eliminate_constant_def Let_def)

text \<open>
  Claim C2. For every well-formed formula, the tree that \<^verbatim>\<open>to_not_and_or\<close> returns
  is well formed and its symbols other than variables are among \<^verbatim>\<open>~\<close>, \<^verbatim>\<open>&\<close>,
  \<^verbatim>\<open>|\<close>; likewise \<^verbatim>\<open>~\<close>, \<^verbatim>\<open>&\<close> for \<^verbatim>\<open>to_not_and\<close>, \<^verbatim>\<open>-&\<close> alone for
  \<^verbatim>\<open>to_nand\<close>, \<^verbatim>\<open>->\<close>, \<^verbatim>\<open>~\<close> for \<^verbatim>\<open>to_implies_not\<close>, and \<^verbatim>\<open>->\<close>, \<^verbatim>\<open>F\<close>
  for \<^verbatim>\<open>to_implies_false\<close>.
\<close>

theorem basis_closure:
  assumes "well_formed f"
  shows "(\<exists>g. to_not_and_or f = Inr g \<and> well_formed g \<and> operators g \<subseteq> {''~'', ''&'', ''|''})
       \<and> (\<exists>g. to_not_and f = Inr g \<and> well_formed g \<and> operators g \<subseteq> {''~'', ''&''})
       \<and> (\<exists>g. to_nand f = Inr g \<and> well_formed g \<and> operators g \<subseteq> {''-&''})
       \<and> (\<exists>g. to_implies_not f = Inr g \<and> well_formed g \<and> operators g \<subseteq> {''->'', ''~''})
       \<and> (\<exists>g. to_implies_false f = Inr g \<and> well_formed g \<and> operators g \<subseteq> {''->'', ''F''})"
proof -
  from assms obtain g where g: "to_not_and_or f = Inr g" "well_formed g"
    "operators g \<subseteq> {''~'', ''&'', ''|''}"
    using to_not_and_or_basis by blast
  have nao: "\<exists>g. to_not_and_or f = Inr g \<and> well_formed g \<and> operators g \<subseteq> {''~'', ''&'', ''|''}"
    using g by blast
  have na: "\<exists>h. to_not_and f = Inr h \<and> well_formed h \<and> operators h \<subseteq> {''~'', ''&''}"
    using convert_not_and_basis [OF g(2,3)] g(1) by (auto simp: to_not_and_def)
  have nd: "\<exists>h. to_nand f = Inr h \<and> well_formed h \<and> operators h \<subseteq> {''-&''}"
    using convert_nand_basis [OF g(2,3)] g(1) by (auto simp: to_nand_def)
  obtain h where h: "convert_implies_not g = Inr h" "well_formed h"
    "operators h \<subseteq> {''->'', ''~''}"
    using convert_implies_not_basis [OF g(2,3)] by blast
  have imn: "\<exists>h. to_implies_not f = Inr h \<and> well_formed h \<and> operators h \<subseteq> {''->'', ''~''}"
    using h g(1) by (auto simp: to_implies_not_def)
  have imf: "\<exists>k. to_implies_false f = Inr k \<and> well_formed k \<and> operators k \<subseteq> {''->'', ''F''}"
    using convert_implies_false_basis [OF h(2,3)] h(1) g(1)
    by (auto simp: to_implies_false_def to_implies_not_def)
  from nao na nd imn imf show ?thesis by blast
qed

theorem basis_closure_witness:
  "well_formed (Binary ''<->'' (Leaf ''q'') (Leaf ''T''))
   \<and> (\<exists>g. to_nand (Binary ''<->'' (Leaf ''q'') (Leaf ''T'')) = Inr g \<and> operators g \<subseteq> {''-&''})
   \<and> (\<exists>g. to_implies_false (Binary ''<->'' (Leaf ''q'') (Leaf ''T'')) = Inr g
          \<and> operators g \<subseteq> {''->'', ''F''})"
proof -
  have w: "well_formed (Binary ''<->'' (Leaf ''q'') (Leaf ''T''))"
    by (simp add: is_variable_def is_constant_def is_binary_def)
  from basis_closure [OF w] w show ?thesis by blast
qed

text \<open>
  Claim C3, at the input on which the code departs from it. In \<^verbatim>\<open>(q&T)\<close> the
  variable \<^verbatim>\<open>q\<close> occurs, and \<^verbatim>\<open>p\<close> does not; \<^verbatim>\<open>to_not_and_or\<close> replaces the
  constant by \<^verbatim>\<open>(p|~p)\<close> all the same, since it looks for a variable in the constant
  node and not in the formula that was given.
\<close>

theorem witness_variable_failing_input:
  "well_formed (Binary ''&'' (Leaf ''q'') (Leaf ''T''))
   \<and> variables (Binary ''&'' (Leaf ''q'') (Leaf ''T'')) = [''q'']
   \<and> to_not_and_or (Binary ''&'' (Leaf ''q'') (Leaf ''T''))
       = Inr (Binary ''&'' (Leaf ''q'') (Binary ''|'' (Leaf ''p'') (Unary ''~'' (Leaf ''p''))))"
  by (simp add: is_variable_def is_constant_def is_unary_def is_binary_def
      eliminate_constant_def combine_not_and_or_def Let_def)

theorem witness_variable_failing_input_witness:
  "to_not_and_or (Binary ''&'' (Leaf ''q'') (Leaf ''T''))
       = Inr (Binary ''&'' (Leaf ''q'') (Binary ''|'' (Leaf ''p'') (Unary ''~'' (Leaf ''p''))))"
  using witness_variable_failing_input by blast

text \<open>
  Claim C5. \<^verbatim>\<open>to_not_and_or\<close> applied to the formula \<^verbatim>\<open>T\<close> returns a tree without
  constant nodes that is true in every model of its variables, and applied to \<^verbatim>\<open>F\<close>
  a tree without constant nodes that is false in every model of its variables.
\<close>

theorem constant_elimination:
  "(\<exists>g. to_not_and_or (Leaf ''T'') = Inr g \<and> constant_nodes g = 0
        \<and> (\<forall>m. set (variables g) \<subseteq> dom m \<longrightarrow> evaluate g m = Some True))
   \<and> (\<exists>g. to_not_and_or (Leaf ''F'') = Inr g \<and> constant_nodes g = 0
        \<and> (\<forall>m. set (variables g) \<subseteq> dom m \<longrightarrow> evaluate g m = Some False))"
  by (auto simp: is_variable_def is_constant_def is_unary_def is_binary_def
      eliminate_constant_def Let_def)

theorem constant_elimination_witness:
  "to_not_and_or (Leaf ''T'') = Inr (Binary ''|'' (Leaf ''p'') (Unary ''~'' (Leaf ''p'')))
   \<and> to_not_and_or (Leaf ''F'') = Inr (Binary ''&'' (Leaf ''p'') (Unary ''~'' (Leaf ''p'')))
   \<and> set (variables (Binary ''|'' (Leaf ''p'') (Unary ''~'' (Leaf ''p'')))) \<subseteq> dom [''p'' \<mapsto> False]
   \<and> evaluate (Binary ''|'' (Leaf ''p'') (Unary ''~'' (Leaf ''p''))) [''p'' \<mapsto> False] = Some True
   \<and> evaluate (Binary ''&'' (Leaf ''p'') (Unary ''~'' (Leaf ''p''))) [''p'' \<mapsto> False] = Some False"
proof -
  have t: "to_not_and_or (Leaf ''T'') = Inr (Binary ''|'' (Leaf ''p'') (Unary ''~'' (Leaf ''p'')))"
    and f: "to_not_and_or (Leaf ''F'') = Inr (Binary ''&'' (Leaf ''p'') (Unary ''~'' (Leaf ''p'')))"
    by (simp_all add: is_variable_def is_constant_def eliminate_constant_def Let_def)
  have v: "set (variables (Binary ''|'' (Leaf ''p'') (Unary ''~'' (Leaf ''p'')))) \<subseteq> dom [''p'' \<mapsto> False]"
    "set (variables (Binary ''&'' (Leaf ''p'') (Unary ''~'' (Leaf ''p'')))) \<subseteq> dom [''p'' \<mapsto> False]"
    by (simp_all add: is_variable_def)
  from constant_elimination t f v show ?thesis
    by (metis Inr_inject)
qed

text \<open>
  Claim C6. For every well-formed formula, converting the result of
  \<^verbatim>\<open>to_not_and_or\<close> once more succeeds, stays within \<^verbatim>\<open>~\<close>, \<^verbatim>\<open>&\<close>, \<^verbatim>\<open>|\<close> and
  has the same value in every model; it is in fact the same tree.
\<close>

theorem to_not_and_or_idempotent:
  assumes "well_formed f"
  shows "\<exists>g h. to_not_and_or f = Inr g \<and> to_not_and_or g = Inr h
           \<and> operators h \<subseteq> {''~'', ''&'', ''|''} \<and> h = g \<and> (\<forall>m. evaluate h m = evaluate g m)"
proof -
  from assms obtain g where g: "to_not_and_or f = Inr g" "well_formed g"
    "operators g \<subseteq> {''~'', ''&'', ''|''}"
    using to_not_and_or_basis by blast
  have "to_not_and_or g = Inr g"
    using g(2,3) by (rule to_not_and_or_fixed)
  with g show ?thesis by simp
qed

theorem to_not_and_or_idempotent_witness:
  "well_formed (Binary ''+'' (Leaf ''q'') (Leaf ''F''))
   \<and> (\<exists>g. to_not_and_or (Binary ''+'' (Leaf ''q'') (Leaf ''F'')) = Inr g \<and> to_not_and_or g = Inr g
          \<and> operators g \<subseteq> {''~'', ''&'', ''|''})"
proof -
  have w: "well_formed (Binary ''+'' (Leaf ''q'') (Leaf ''F''))"
    by (simp add: is_variable_def is_constant_def is_binary_def)
  from to_not_and_or_idempotent [OF w] w show ?thesis by blast
qed

text \<open>
  Claim C10, as amended. For every well-formed formula the tree that
  \<^verbatim>\<open>to_implies_not\<close> returns has no constant node, so the branch for constants of the
  second stage of \<^verbatim>\<open>to_implies_false\<close> is never taken. The tree that
  \<^verbatim>\<open>to_implies_false\<close> returns uses only \<^verbatim>\<open>->\<close>, variables and the constant
  \<^verbatim>\<open>F\<close>, never \<^verbatim>\<open>T\<close>, and it holds \<^verbatim>\<open>F\<close> exactly when the result of
  \<^verbatim>\<open>to_implies_not\<close> holds a negation. The counterexample is \<^verbatim>\<open>~p\<close>, which
  becomes \<^verbatim>\<open>(p->F)\<close>.
\<close>

theorem implies_false_constants:
  assumes "well_formed f"
  shows "\<exists>g h. to_implies_not f = Inr g \<and> constant_nodes g = 0
           \<and> to_implies_false f = Inr h \<and> well_formed h
           \<and> operators h \<subseteq> {''->'', ''F''} \<and> ''T'' \<notin> operators h
           \<and> (''F'' \<in> operators h \<longleftrightarrow> ''~'' \<in> operators g)"
proof -
  from assms obtain g0 where g0: "to_not_and_or f = Inr g0" "well_formed g0"
    "operators g0 \<subseteq> {''~'', ''&'', ''|''}"
    using to_not_and_or_basis by blast
  obtain g where g: "convert_implies_not g0 = Inr g" "well_formed g"
    "operators g \<subseteq> {''->'', ''~''}"
    using convert_implies_not_basis [OF g0(2,3)] by blast
  have c: "constant_nodes g = 0"
    using g(2,3) by (rule implies_not_constant_free)
  obtain h where h: "convert_implies_false g = Inr h" "well_formed h"
    "operators h \<subseteq> {''->'', ''F''}" "''F'' \<in> operators h \<longleftrightarrow> ''~'' \<in> operators g"
    using convert_implies_false_basis [OF g(2,3)] by blast
  from h(3) have "''T'' \<notin> operators h" by auto
  with g0(1) g(1) c h show ?thesis
    by (simp add: to_implies_false_def to_implies_not_def)
qed

theorem implies_false_constants_witness:
  "well_formed (Unary ''~'' (Leaf ''p''))
   \<and> (\<exists>g h. to_implies_not (Unary ''~'' (Leaf ''p'')) = Inr g \<and> constant_nodes g = 0
         \<and> to_implies_false (Unary ''~'' (Leaf ''p'')) = Inr h
         \<and> operators h \<subseteq> {''->'', ''F''})"
proof -
  have w: "well_formed (Unary ''~'' (Leaf ''p''))"
    by (simp add: is_variable_def is_unary_def)
  from implies_false_constants [OF w] w show ?thesis by blast
qed

theorem implies_false_constant_counterexample:
  "well_formed (Unary ''~'' (Leaf ''p''))
   \<and> to_implies_false (Unary ''~'' (Leaf ''p'')) = Inr (Binary ''->'' (Leaf ''p'') (Leaf ''F''))
   \<and> constant_nodes (Binary ''->'' (Leaf ''p'') (Leaf ''F'')) = 1
   \<and> ''F'' \<in> operators (Binary ''->'' (Leaf ''p'') (Leaf ''F''))"
  by (simp add: is_variable_def is_constant_def is_unary_def is_binary_def
      to_implies_false_def to_implies_not_def)



text \<open>
  Claim C4. On every well-formed formula none of the five conversions raises. On a
  shaped tree, where a root that is no symbol of the language may stand at any node, each
  of the five conversions raises exactly when some root of the tree is neither a variable
  nor one of the ten symbols of the language, and each second stage raises exactly when
  some root of the tree it is given is neither a variable nor one of the symbols it
  handles: \<^verbatim>\<open>~\<close>, \<^verbatim>\<open>&\<close>, \<^verbatim>\<open>|\<close> for the second stages of \<^verbatim>\<open>to_not_and\<close>,
  \<^verbatim>\<open>to_nand\<close> and \<^verbatim>\<open>to_implies_not\<close>, and \<^verbatim>\<open>T\<close>, \<^verbatim>\<open>F\<close>, \<^verbatim>\<open>~\<close>, \<^verbatim>\<open>->\<close>
  for that of \<^verbatim>\<open>to_implies_false\<close>. There is no other failure on such trees.
\<close>

theorem raises_iff_unknown_symbol:
  "(well_formed f \<longrightarrow>
      \<not> isl (to_not_and_or f) \<and> \<not> isl (to_not_and f) \<and> \<not> isl (to_nand f)
      \<and> \<not> isl (to_implies_not f) \<and> \<not> isl (to_implies_false f))
   \<and> (shaped f \<longrightarrow>
      (isl (to_not_and_or f) \<longleftrightarrow>
         \<not> operators f \<subseteq> {''T'', ''F'', ''~'', ''&'', ''|'', ''->'', ''+'', ''<->'', ''-&'', ''-|''})
      \<and> (isl (to_not_and f) \<longleftrightarrow>
         \<not> operators f \<subseteq> {''T'', ''F'', ''~'', ''&'', ''|'', ''->'', ''+'', ''<->'', ''-&'', ''-|''})
      \<and> (isl (to_nand f) \<longleftrightarrow>
         \<not> operators f \<subseteq> {''T'', ''F'', ''~'', ''&'', ''|'', ''->'', ''+'', ''<->'', ''-&'', ''-|''})
      \<and> (isl (to_implies_not f) \<longleftrightarrow>
         \<not> operators f \<subseteq> {''T'', ''F'', ''~'', ''&'', ''|'', ''->'', ''+'', ''<->'', ''-&'', ''-|''})
      \<and> (isl (to_implies_false f) \<longleftrightarrow>
         \<not> operators f \<subseteq> {''T'', ''F'', ''~'', ''&'', ''|'', ''->'', ''+'', ''<->'', ''-&'', ''-|''})
      \<and> (isl (convert_not_and f) \<longleftrightarrow> \<not> operators f \<subseteq> {''~'', ''&'', ''|''})
      \<and> (isl (convert_nand f) \<longleftrightarrow> \<not> operators f \<subseteq> {''~'', ''&'', ''|''})
      \<and> (isl (convert_implies_not f) \<longleftrightarrow> \<not> operators f \<subseteq> {''~'', ''&'', ''|''})
      \<and> (isl (convert_implies_false f) \<longleftrightarrow> \<not> operators f \<subseteq> {''T'', ''F'', ''~'', ''->''}))"
proof (rule conjI [OF impI impI])
  assume "well_formed f"
  then show "\<not> isl (to_not_and_or f) \<and> \<not> isl (to_not_and f) \<and> \<not> isl (to_nand f)
      \<and> \<not> isl (to_implies_not f) \<and> \<not> isl (to_implies_false f)"
    by (rule reductions_return)
next
  assume s: "shaped f"
  note k = shaped_well_formed_iff [OF s]
  note r = reductions_raise_iff [OF s, unfolded k]
  show "(isl (to_not_and_or f) \<longleftrightarrow>
         \<not> operators f \<subseteq> {''T'', ''F'', ''~'', ''&'', ''|'', ''->'', ''+'', ''<->'', ''-&'', ''-|''})
      \<and> (isl (to_not_and f) \<longleftrightarrow>
         \<not> operators f \<subseteq> {''T'', ''F'', ''~'', ''&'', ''|'', ''->'', ''+'', ''<->'', ''-&'', ''-|''})
      \<and> (isl (to_nand f) \<longleftrightarrow>
         \<not> operators f \<subseteq> {''T'', ''F'', ''~'', ''&'', ''|'', ''->'', ''+'', ''<->'', ''-&'', ''-|''})
      \<and> (isl (to_implies_not f) \<longleftrightarrow>
         \<not> operators f \<subseteq> {''T'', ''F'', ''~'', ''&'', ''|'', ''->'', ''+'', ''<->'', ''-&'', ''-|''})
      \<and> (isl (to_implies_false f) \<longleftrightarrow>
         \<not> operators f \<subseteq> {''T'', ''F'', ''~'', ''&'', ''|'', ''->'', ''+'', ''<->'', ''-&'', ''-|''})
      \<and> (isl (convert_not_and f) \<longleftrightarrow> \<not> operators f \<subseteq> {''~'', ''&'', ''|''})
      \<and> (isl (convert_nand f) \<longleftrightarrow> \<not> operators f \<subseteq> {''~'', ''&'', ''|''})
      \<and> (isl (convert_implies_not f) \<longleftrightarrow> \<not> operators f \<subseteq> {''~'', ''&'', ''|''})
      \<and> (isl (convert_implies_false f) \<longleftrightarrow> \<not> operators f \<subseteq> {''T'', ''F'', ''~'', ''->''})"
    by (intro conjI r convert_not_and_raises_iff [OF s] convert_nand_raises_iff [OF s]
        convert_implies_not_raises_iff [OF s] convert_implies_false_raises_iff [OF s])
qed

theorem raises_iff_unknown_symbol_witness:
  "well_formed (Binary ''<->'' (Leaf ''q'') (Leaf ''T''))
   \<and> \<not> isl (to_implies_false (Binary ''<->'' (Leaf ''q'') (Leaf ''T'')))
   \<and> shaped (Binary ''%'' (Leaf ''q'') (Leaf ''T''))
   \<and> ''%'' \<in> operators (Binary ''%'' (Leaf ''q'') (Leaf ''T''))
   \<and> isl (to_not_and_or (Binary ''%'' (Leaf ''q'') (Leaf ''T'')))
   \<and> isl (to_nand (Binary ''%'' (Leaf ''q'') (Leaf ''T'')))
   \<and> shaped (Binary ''->'' (Leaf ''q'') (Leaf ''r''))
   \<and> isl (convert_not_and (Binary ''->'' (Leaf ''q'') (Leaf ''r'')))
   \<and> \<not> isl (convert_implies_false (Binary ''->'' (Leaf ''q'') (Leaf ''r'')))"
proof -
  have w: "well_formed (Binary ''<->'' (Leaf ''q'') (Leaf ''T''))"
    by (simp add: is_variable_def is_constant_def is_binary_def)
  have s1: "shaped (Binary ''%'' (Leaf ''q'') (Leaf ''T''))"
    and s2: "shaped (Binary ''->'' (Leaf ''q'') (Leaf ''r''))"
    by (simp_all add: is_variable_def is_constant_def is_unary_def is_binary_def)
  have o1: "''%'' \<in> operators (Binary ''%'' (Leaf ''q'') (Leaf ''T''))"
    by simp
  have n1: "\<not> operators (Binary ''%'' (Leaf ''q'') (Leaf ''T''))
      \<subseteq> {''T'', ''F'', ''~'', ''&'', ''|'', ''->'', ''+'', ''<->'', ''-&'', ''-|''}"
    by simp
  have n2: "\<not> operators (Binary ''->'' (Leaf ''q'') (Leaf ''r'')) \<subseteq> {''~'', ''&'', ''|''}"
    and n3: "operators (Binary ''->'' (Leaf ''q'') (Leaf ''r'')) \<subseteq> {''T'', ''F'', ''~'', ''->''}"
    by (simp_all add: is_variable_def)
  note t1 = raises_iff_unknown_symbol [of "Binary ''<->'' (Leaf ''q'') (Leaf ''T'')"]
  note t2 = raises_iff_unknown_symbol [of "Binary ''%'' (Leaf ''q'') (Leaf ''T'')"]
  note t3 = raises_iff_unknown_symbol [of "Binary ''->'' (Leaf ''q'') (Leaf ''r'')"]
  from t1 [THEN conjunct1, rule_format, OF w]
  have a: "\<not> isl (to_implies_false (Binary ''<->'' (Leaf ''q'') (Leaf ''T'')))"
    by simp
  note u2 = t2 [THEN conjunct2, rule_format, OF s1]
  from u2 n1 have b: "isl (to_not_and_or (Binary ''%'' (Leaf ''q'') (Leaf ''T'')))"
    "isl (to_nand (Binary ''%'' (Leaf ''q'') (Leaf ''T'')))"
    by simp_all
  note u3 = t3 [THEN conjunct2, rule_format, OF s2]
  from u3 n2 n3 have c: "isl (convert_not_and (Binary ''->'' (Leaf ''q'') (Leaf ''r'')))"
    "\<not> isl (convert_implies_false (Binary ''->'' (Leaf ''q'') (Leaf ''r'')))"
    by simp_all
  from w a s1 o1 b s2 c show ?thesis by (intro conjI)
qed

end
